theory Spec2Isabelle
  imports Complex_Main "HOL-Library.Word"
begin

section \<open>The Telegram control plane of ninjabot (notification/telegram.go)\<close>

text \<open>
  The theory embeds \<^verbatim>\<open>src/notification/telegram.go\<close>. Go strings are byte sequences and are
  modelled by \<^typ>\<open>string\<close>. A \<^verbatim>\<open>float64\<close> is modelled by the rational number it
  denotes: products and quotients are exact, so the rounding of float64 arithmetic, infinities
  and NaN are outside the model. Go's \<^verbatim>\<open>int\<close> is taken to be 64 bits wide, as on amd64 and
  arm64.
\<close>

type_synonym float64 = rat
type_synonym int64 = "64 word"
type_synonym goint = "64 word"

subsection \<open>Characters and strings of the Go library\<close>

definition nl :: string where
  "nl = [CHR 0x0A]"

definition tab :: string where
  "tab = [CHR 0x09]"

text \<open>The Perl classes of Go's \<^verbatim>\<open>regexp/syntax\<close>: \<^verbatim>\<open>\s\<close> is \<^verbatim>\<open>[\t\n\f\r ]\<close>,
  \<^verbatim>\<open>\w\<close> is \<^verbatim>\<open>[0-9A-Za-z_]\<close> and \<^verbatim>\<open>\d\<close> is \<^verbatim>\<open>[0-9]\<close>. All three are ASCII only, so
  matching bytes and matching UTF-8 runes agree on them.\<close>

definition is_space :: "char \<Rightarrow> bool" where
  "is_space c = (c \<in> set [CHR 0x09, CHR 0x0A, CHR 0x0C, CHR 0x0D, CHR '' ''])"

definition is_digit :: "char \<Rightarrow> bool" where
  "is_digit c = (c \<in> set ''0123456789'')"

definition is_word :: "char \<Rightarrow> bool" where
  "is_word c = (c \<in> set ''0123456789ABCDEFGHIJKLMNOPQRSTUVWXYZ_abcdefghijklmnopqrstuvwxyz'')"

text \<open>\<^verbatim>\<open>strings.ToUpper\<close> on ASCII text: the letters a to z move to A to Z and every other
  byte stays. The handlers apply it to a \<^verbatim>\<open>\w+\<close> capture only, which is ASCII.\<close>

definition upper_char :: "char \<Rightarrow> char" where
  "upper_char c =
     (case map_of (zip ''abcdefghijklmnopqrstuvwxyz'' ''ABCDEFGHIJKLMNOPQRSTUVWXYZ'') c of
        None \<Rightarrow> c
      | Some u \<Rightarrow> u)"

definition ToUpper :: "string \<Rightarrow> string" where
  "ToUpper s = map upper_char s"

text \<open>\<^verbatim>\<open>strings.Join\<close>.\<close>

fun Join :: "string list \<Rightarrow> string \<Rightarrow> string" where
  "Join [] sep = []"
| "Join [x] sep = x"
| "Join (x # y # ys) sep = x @ sep @ Join (y # ys) sep"

subsection \<open>Regular expressions with leftmost-first matching\<close>

text \<open>
  The fragment of Go's regular expressions that \<^verbatim>\<open>buyRegexp\<close> and \<^verbatim>\<open>sellRegexp\<close> use: literals,
  \<^verbatim>\<open>c+\<close> for a character class \<^verbatim>\<open>c\<close>, \<^verbatim>\<open>r?\<close>, concatenation, and capture groups, which carry
  their index (the number of their opening parenthesis) and their name. A non-capturing group
  \<^verbatim>\<open>(?:r)\<close> is \<^verbatim>\<open>r\<close> itself.
\<close>

datatype regex =
    Lit string
  | Rep1 "char \<Rightarrow> bool"
  | Opt regex
  | Seq regex regex
  | Group nat string regex

type_synonym captures = "nat \<rightharpoonup> string"

text \<open>\<open>rep1 P s\<close> lists what is left of \<open>s\<close> after one or more characters of class \<open>P\<close>,
  the longest run first: \<^verbatim>\<open>+\<close> is greedy.\<close>

fun rep1 :: "(char \<Rightarrow> bool) \<Rightarrow> string \<Rightarrow> string list" where
  "rep1 P [] = []"
| "rep1 P (x # xs) = (if P x then rep1 P xs @ [xs] else [])"

text \<open>\<open>alts r s c\<close> lists every way \<open>r\<close> matches a prefix of \<open>s\<close>, as the rest of the input
  and the captures, in the order of preference of a backtracking matcher: a greedy operator
  prefers to match more. Go's leftmost-first semantics picks the first one.\<close>

fun alts :: "regex \<Rightarrow> string \<Rightarrow> captures \<Rightarrow> (string \<times> captures) list" where
  "alts (Lit l) s c = (if take (length l) s = l then [(drop (length l) s, c)] else [])"
| "alts (Rep1 P) s c = map (\<lambda>s'. (s', c)) (rep1 P s)"
| "alts (Opt r) s c = alts r s c @ [(s, c)]"
| "alts (Seq a b) s c = concat (map (\<lambda>(s', c'). alts b s' c') (alts a s c))"
| "alts (Group i n r) s c =
     map (\<lambda>(s', c'). (s', c'(i \<mapsto> take (length s - length s') s))) (alts r s c)"

fun NumSubexp :: "regex \<Rightarrow> nat" where
  "NumSubexp (Lit l) = 0"
| "NumSubexp (Rep1 P) = 0"
| "NumSubexp (Opt r) = NumSubexp r"
| "NumSubexp (Seq a b) = NumSubexp a + NumSubexp b"
| "NumSubexp (Group i n r) = Suc (NumSubexp r)"

fun group_names :: "regex \<Rightarrow> (nat \<times> string) list" where
  "group_names (Lit l) = []"
| "group_names (Rep1 P) = []"
| "group_names (Opt r) = group_names r"
| "group_names (Seq a b) = group_names a @ group_names b"
| "group_names (Group i n r) = (i, n) # group_names r"

text \<open>\<^verbatim>\<open>SubexpNames\<close>: the name of every group by index; index 0 is the whole expression and
  has the empty name.\<close>

definition SubexpNames :: "regex \<Rightarrow> string list" where
  "SubexpNames re =
     map (\<lambda>i. case map_of (group_names re) i of None \<Rightarrow> [] | Some n \<Rightarrow> n)
       [0 ..< Suc (NumSubexp re)]"

text \<open>The submatches of a match that starts at \<open>s\<close> and leaves \<open>s'\<close>: the matched text,
  then the text of every group, empty for a group that took no part.\<close>

definition submatches :: "regex \<Rightarrow> string \<Rightarrow> string \<Rightarrow> captures \<Rightarrow> string list" where
  "submatches re s s' c =
     take (length s - length s') s #
     map (\<lambda>i. case c i of None \<Rightarrow> [] | Some v \<Rightarrow> v) [1 ..< Suc (NumSubexp re)]"

text \<open>\<^verbatim>\<open>FindStringSubmatch\<close> is not anchored: it tries every start position from the left,
  the end of the text included, and returns the first match there is; \<^verbatim>\<open>nil\<close>, the empty
  slice, when there is none.\<close>

fun FindStringSubmatch :: "regex \<Rightarrow> string \<Rightarrow> string list" where
  "FindStringSubmatch re [] =
     (case alts re [] Map.empty of [] \<Rightarrow> [] | (s', c) # _ \<Rightarrow> submatches re [] s' c)"
| "FindStringSubmatch re (x # xs) =
     (case alts re (x # xs) Map.empty of
        [] \<Rightarrow> FindStringSubmatch re xs
      | (s', c) # _ \<Rightarrow> submatches re (x # xs) s' c)"

text \<open>Lines 21 and 22:
  \<^verbatim>\<open>/buy\s+(?P<pair>\w+)\s+(?P<amount>\d+(?:\.\d+)?)(?P<percent>%)?\<close> and the same
  with \<^verbatim>\<open>/sell\<close>.\<close>

definition orderRegexp :: "string \<Rightarrow> regex" where
  "orderRegexp keyword =
     Seq (Lit keyword)
    (Seq (Rep1 is_space)
    (Seq (Group 1 ''pair'' (Rep1 is_word))
    (Seq (Rep1 is_space)
    (Seq (Group 2 ''amount'' (Seq (Rep1 is_digit) (Opt (Seq (Lit ''.'') (Rep1 is_digit)))))
         (Opt (Group 3 ''percent'' (Lit ''%'')))))))"

definition buyRegexp :: regex where
  "buyRegexp = orderRegexp ''/buy''"

definition sellRegexp :: regex where
  "sellRegexp = orderRegexp ''/sell''"

subsection \<open>Errors and \<^verbatim>\<open>strconv.ParseFloat\<close>\<close>

text \<open>A Go \<^verbatim>\<open>error\<close> value is modelled by the two things the source observes of it: the text
  that \<^verbatim>\<open>%s\<close> prints, and what \<^verbatim>\<open>errors.As\<close> finds in its chain for
  \<^verbatim>\<open>*exchange.OrderError\<close>: nothing, or the fields \<^verbatim>\<open>Pair\<close>, \<^verbatim>\<open>Quantity\<close> and the text of
  \<^verbatim>\<open>Err\<close>.\<close>

datatype error = Error (ErrorString: string) (AsOrderError: "(string \<times> float64 \<times> string) option")

definition digit_val :: "char \<Rightarrow> nat" where
  "digit_val c =
     (case map_of (zip ''0123456789'' [0, 1, 2, 3, 4, 5, 6, 7, 8, 9]) c of
        None \<Rightarrow> 0
      | Some d \<Rightarrow> d)"

definition nat_of_digits :: "string \<Rightarrow> nat" where
  "nat_of_digits s = foldl (\<lambda>n c. 10 * n + digit_val c) 0 s"

text \<open>A plain decimal: digits, then possibly a point and digits. This is the syntax of the
  \<^verbatim>\<open>amount\<close> group, the only text the handlers pass to \<^verbatim>\<open>ParseFloat\<close>.\<close>

definition is_decimal :: "string \<Rightarrow> bool" where
  "is_decimal s =
     (let rest = dropWhile is_digit s in
      takeWhile is_digit s \<noteq> [] \<and>
      (rest = [] \<or> (take 1 rest = ''.'' \<and> drop 1 rest \<noteq> [] \<and> list_all is_digit (drop 1 rest))))"

definition decimal_value :: "string \<Rightarrow> rat" where
  "decimal_value s =
     (let frac = drop 1 (dropWhile is_digit s) in
      of_nat (nat_of_digits (takeWhile is_digit s)) + of_nat (nat_of_digits frac) / 10 ^ length frac)"

definition quoted :: "string \<Rightarrow> string" where
  "quoted s = [CHR 0x22] @ s @ [CHR 0x22]"

definition NumError :: "string \<Rightarrow> string \<Rightarrow> error" where
  "NumError num why = Error (''strconv.ParseFloat: parsing '' @ quoted num @ '': '' @ why) None"

text \<open>
  \<^verbatim>\<open>strconv.ParseFloat(s, 64)\<close> on plain decimals. The result is the nearest float64; the model
  keeps the exact value of the decimal, except where the rounding decides a branch of the
  handlers. A value that rounds beyond the largest finite float64, that is a value of at least
  \<open>2^1024 - 2^970\<close>, is the error \<^verbatim>\<open>ErrRange\<close>. A value that rounds to zero, that is a
  value of at most \<open>2^-1075\<close>, is returned as zero without an error. Any other text is taken
  as a syntax error here, although the library accepts further notations (exponents,
  hexadecimal, \<^verbatim>\<open>inf\<close>), none of which the \<^verbatim>\<open>amount\<close> group can capture.
\<close>

definition overflows :: "rat \<Rightarrow> bool" where
  "overflows v \<longleftrightarrow> 2 ^ 1024 - 2 ^ 970 \<le> v"

definition underflows :: "rat \<Rightarrow> bool" where
  "underflows v \<longleftrightarrow> v \<le> 1 / 2 ^ 1075"

definition ParseFloat :: "string \<Rightarrow> error + float64" where
  "ParseFloat s =
     (if \<not> is_decimal s then Inl (NumError s ''invalid syntax'')
      else let v = decimal_value s in
        if overflows v then Inl (NumError s ''value out of range'')
        else if underflows v then Inr 0
        else Inr v)"

subsection \<open>The outside world: settings, transport and order controller\<close>

text \<open>Modelled from the spec: the type \<^verbatim>\<open>order.Status\<close> is not part of the source file; the
  spec gives the run state of the engine the two values Running and Stopped.\<close>

datatype Status = StatusRunning | StatusStopped

datatype SideType = SideTypeBuy | SideTypeSell

record Balance =
  Free :: float64
  Lock :: float64

text \<open>Every call that leaves the file is an event of the trace, in the order of the calls. A
  send records the recipient, the text and whether the default menu was passed.\<close>

datatype event =
    EvSend int64 string bool
  | EvLogError
  | EvLogInfo
  | EvCommands
  | EvAccount
  | EvLastQuote string
  | EvPosition string
  | EvCreateOrderMarketQuote SideType string float64
  | EvCreateOrderMarket SideType string float64
  | EvStatus
  | EvStart
  | EvStop

text \<open>
  The environment holds the settings and what the collaborators answer. The answer to a call is
  a function of the trace up to and including that call, so the same call may fail once and
  succeed later. \<open>fmtFloat n x\<close> is \<^verbatim>\<open>fmt.Sprintf("%.nf", x)\<close>, \<open>statusString\<close> is what
  \<^verbatim>\<open>%s\<close> prints for a status, \<open>mapRange\<close> gives the entries of a map in the order in
  which a \<^verbatim>\<open>range\<close> visits them (Go leaves it open), \<open>Results\<close> are the entries of
  \<^verbatim>\<open>orderController.Results\<close> in that order with the text of each summary, and \<open>route\<close> is the
  endpoint that telebot selects for a message text.
\<close>

record env =
  Users :: "goint list"
  Pairs :: "string list"
  sendErr :: "event list \<Rightarrow> error option"
  commandsRes :: "event list \<Rightarrow> error + (string \<times> string) list"
  accountRes :: "event list \<Rightarrow> error + (string \<Rightarrow> string \<Rightarrow> Balance \<times> Balance)"
  lastQuoteRes :: "event list \<Rightarrow> error + float64"
  positionRes :: "event list \<Rightarrow> error + (float64 \<times> float64)"
  orderRes :: "event list \<Rightarrow> error option"
  Results :: "event list \<Rightarrow> (string \<times> string) list"
  SplitAssetQuote :: "string \<Rightarrow> string \<times> string"
  fmtFloat :: "nat \<Rightarrow> float64 \<Rightarrow> string"
  statusString :: "Status \<Rightarrow> string"
  mapRange :: "(string \<rightharpoonup> float64) \<Rightarrow> (string \<times> float64) list"
  route :: "string \<Rightarrow> string option"

record state =
  trace :: "event list"
  runState :: Status

record user =
  ID :: int64

record message =
  MsgSender :: "user option"
  MsgText :: string

record update =
  Message :: "message option"

text \<open>What a handler reads of its \<^verbatim>\<open>tb.Context\<close>: \<^verbatim>\<open>c.Sender()\<close> and \<^verbatim>\<open>c.Message().Text\<close>.\<close>

record tbContext =
  Sender :: user
  Text :: string

type_synonym handler = "tbContext \<Rightarrow> state \<Rightarrow> error option \<times> state"

definition emit :: "event \<Rightarrow> state \<Rightarrow> state" where
  "emit ev st = st\<lparr>trace := trace st @ [ev]\<rparr>"

definition logError :: "state \<Rightarrow> state" where
  "logError st = emit EvLogError st"

definition logInfo :: "state \<Rightarrow> state" where
  "logInfo st = emit EvLogInfo st"

definition client_Send :: "env \<Rightarrow> user \<Rightarrow> string \<Rightarrow> bool \<Rightarrow> state \<Rightarrow> error option \<times> state" where
  "client_Send e to text menu st =
     (let st' = emit (EvSend (ID to) text menu) st in (sendErr e (trace st'), st'))"

definition client_Commands :: "env \<Rightarrow> state \<Rightarrow> (error + (string \<times> string) list) \<times> state" where
  "client_Commands e st = (let st' = emit EvCommands st in (commandsRes e (trace st'), st'))"

definition Controller_Account ::
  "env \<Rightarrow> state \<Rightarrow> (error + (string \<Rightarrow> string \<Rightarrow> Balance \<times> Balance)) \<times> state" where
  "Controller_Account e st = (let st' = emit EvAccount st in (accountRes e (trace st'), st'))"

definition Controller_LastQuote :: "env \<Rightarrow> string \<Rightarrow> state \<Rightarrow> (error + float64) \<times> state" where
  "Controller_LastQuote e pair st =
     (let st' = emit (EvLastQuote pair) st in (lastQuoteRes e (trace st'), st'))"

definition Controller_Position ::
  "env \<Rightarrow> string \<Rightarrow> state \<Rightarrow> (error + (float64 \<times> float64)) \<times> state" where
  "Controller_Position e pair st =
     (let st' = emit (EvPosition pair) st in (positionRes e (trace st'), st'))"

definition Controller_CreateOrderMarketQuote ::
  "env \<Rightarrow> SideType \<Rightarrow> string \<Rightarrow> float64 \<Rightarrow> state \<Rightarrow> error option \<times> state" where
  "Controller_CreateOrderMarketQuote e side pair amount st =
     (let st' = emit (EvCreateOrderMarketQuote side pair amount) st in (orderRes e (trace st'), st'))"

definition Controller_CreateOrderMarket ::
  "env \<Rightarrow> SideType \<Rightarrow> string \<Rightarrow> float64 \<Rightarrow> state \<Rightarrow> error option \<times> state" where
  "Controller_CreateOrderMarket e side pair amount st =
     (let st' = emit (EvCreateOrderMarket side pair amount) st in (orderRes e (trace st'), st'))"

text \<open>Modelled from the spec: the methods \<^verbatim>\<open>Status\<close>, \<^verbatim>\<open>Start\<close> and \<^verbatim>\<open>Stop\<close> of
  \<^verbatim>\<open>order.Controller\<close> are not part of the source file. By the spec \<^verbatim>\<open>runState()\<close> reads the
  run state of the engine, \<^verbatim>\<open>start()\<close> moves it to Running and \<^verbatim>\<open>stop()\<close> to Stopped.\<close>

definition Controller_Status :: "state \<Rightarrow> Status \<times> state" where
  "Controller_Status st = (runState st, emit EvStatus st)"

definition Controller_Start :: "state \<Rightarrow> state" where
  "Controller_Start st = (emit EvStart st)\<lparr>runState := StatusRunning\<rparr>"

definition Controller_Stop :: "state \<Rightarrow> state" where
  "Controller_Stop st = (emit EvStop st)\<lparr>runState := StatusStopped\<rparr>"

subsection \<open>The access filter and the notification fan-out\<close>

text \<open>Lines 44 to 48: the loop over \<^verbatim>\<open>settings.Telegram.Users\<close> that returns at the first
  user equal to \<^verbatim>\<open>int(u.Message.Sender.ID)\<close>.\<close>

fun users_loop :: "goint list \<Rightarrow> int64 \<Rightarrow> bool" where
  "users_loop [] sid = False"
| "users_loop (user # users) sid = (if ucast sid = user then True else users_loop users sid)"

text \<open>Lines 38 to 52: the filter of the middleware poller.\<close>

definition userMiddleware :: "env \<Rightarrow> update \<Rightarrow> state \<Rightarrow> bool \<times> state" where
  "userMiddleware e u st =
     (case Message u of
        None \<Rightarrow> (False, logError st)
      | Some m \<Rightarrow>
          (case MsgSender m of
             None \<Rightarrow> (False, logError st)
           | Some sender \<Rightarrow>
               if users_loop (Users e) (ID sender) then (True, st)
               else (False, logError st)))"

text \<open>Lines 125 to 132. \<^verbatim>\<open>Notify\<close> has no result: a failed send is logged and the loop goes
  on.\<close>

fun Notify_loop :: "env \<Rightarrow> string \<Rightarrow> goint list \<Rightarrow> state \<Rightarrow> state" where
  "Notify_loop e text [] st = st"
| "Notify_loop e text (user # users) st =
     (case client_Send e \<lparr>ID = ucast user\<rparr> text False st of
        (None, st') \<Rightarrow> Notify_loop e text users st'
      | (Some err, st') \<Rightarrow> Notify_loop e text users (logError st'))"

definition Notify :: "env \<Rightarrow> string \<Rightarrow> state \<Rightarrow> state" where
  "Notify e text st = Notify_loop e text (Users e) st"

definition errorTitle :: string where
  "errorTitle = [CHR 0xF0, CHR 0x9F, CHR 0x9B, CHR 0x91] @ '' ERROR''"

text \<open>Lines 381 to 397. The raw string literal of the order error message keeps the two tabs
  that indent its lines in the source.\<close>

definition OnError :: "env \<Rightarrow> error \<Rightarrow> state \<Rightarrow> state" where
  "OnError e err st =
     (case AsOrderError err of
        Some (pair, quantity, cause) \<Rightarrow>
          Notify e
            (errorTitle @ nl @
             tab @ tab @ ''-----'' @ nl @
             tab @ tab @ ''Pair: '' @ pair @ nl @
             tab @ tab @ ''Quantity: '' @ fmtFloat e 4 quantity @ nl @
             tab @ tab @ ''-----'' @ nl @
             tab @ tab @ cause) st
      | None \<Rightarrow> Notify e (errorTitle @ nl @ ''-----'' @ nl @ ErrorString err) st)"

subsection \<open>The command handlers\<close>

text \<open>The end of several handlers: \<^verbatim>\<open>if err != nil { log.Error(err) }; return err\<close> after a
  send.\<close>

definition logged :: "error option \<times> state \<Rightarrow> error option \<times> state" where
  "logged r = (case r of (None, st) \<Rightarrow> (None, st) | (Some err, st) \<Rightarrow> (Some err, logError st))"

text \<open>Lines 146 to 164: the loop over the configured pairs with its three accumulators.\<close>

fun Balance_loop ::
  "env \<Rightarrow> (string \<Rightarrow> string \<Rightarrow> Balance \<times> Balance) \<Rightarrow> string list \<Rightarrow>
   string \<times> (string \<rightharpoonup> float64) \<times> float64 \<Rightarrow> state \<Rightarrow>
   (error + string \<times> (string \<rightharpoonup> float64) \<times> float64) \<times> state" where
  "Balance_loop e account [] acc st = (Inr acc, st)"
| "Balance_loop e account (pair # pairs) (message, quotesValue, totalSum) st =
     (let (assetPair, quotePair) = SplitAssetQuote e pair;
          (assetBalance, quoteBalance) = account assetPair quotePair;
          assetSize = Free assetBalance + Lock assetBalance;
          quoteSize = Free quoteBalance + Lock quoteBalance
      in case Controller_LastQuote e pair st of
           (Inl err, st') \<Rightarrow> (Inl err, OnError e err (logError st'))
         | (Inr quote, st') \<Rightarrow>
             (let assetValue = assetSize * quote
              in Balance_loop e account pairs
                   (message @ assetPair @ '': `'' @ fmtFloat e 4 assetSize @ ''` '' @
                      [CHR 0xE2, CHR 0x89, CHR 0x85] @ '' `'' @ fmtFloat e 2 assetValue @ ''` '' @
                      quotePair @ '' '' @ nl,
                    quotesValue(quotePair \<mapsto> quoteSize),
                    totalSum + assetValue) st'))"

text \<open>Lines 166 to 169: the loop over the quote currencies.\<close>

fun Quotes_loop :: "env \<Rightarrow> (string \<times> float64) list \<Rightarrow> string \<times> float64 \<Rightarrow> string \<times> float64" where
  "Quotes_loop e [] acc = acc"
| "Quotes_loop e ((quote, v) # rest) (message, totalSum) =
     Quotes_loop e rest (message @ quote @ '': `'' @ fmtFloat e 4 v @ ''`'' @ nl, totalSum + v)"

text \<open>Lines 134 to 178.\<close>

definition BalanceHandle :: "env \<Rightarrow> handler" where
  "BalanceHandle e c st =
     (case Controller_Account e st of
        (Inl err, st') \<Rightarrow> (Some err, OnError e err (logError st'))
      | (Inr account, st') \<Rightarrow>
          (case Balance_loop e account (Pairs e) (''*BALANCE*'' @ nl, Map.empty, 0) st' of
             (Inl err, st'') \<Rightarrow> (Some err, st'')
           | (Inr (message, quotesValue, totalSum), st'') \<Rightarrow>
               (let (message, totalSum) = Quotes_loop e (mapRange e quotesValue) (message, totalSum)
                in logged (client_Send e (Sender c)
                     (message @ ''-----'' @ nl @ ''Total: `'' @ fmtFloat e 4 totalSum @ ''`'' @ nl)
                     False st''))))"

text \<open>Lines 180 to 199.\<close>

definition HelpHandle :: "env \<Rightarrow> handler" where
  "HelpHandle e c st =
     (case client_Commands e st of
        (Inl err, st') \<Rightarrow> (Some err, OnError e err (logError st'))
      | (Inr commands, st') \<Rightarrow>
          logged (client_Send e (Sender c)
            (Join (map (\<lambda>(text, description). ''/'' @ text @ '' - '' @ description) commands) nl)
            False st'))"

text \<open>Lines 201 to 217.\<close>

fun Profit_loop :: "env \<Rightarrow> user \<Rightarrow> (string \<times> string) list \<Rightarrow> state \<Rightarrow> state" where
  "Profit_loop e to [] st = st"
| "Profit_loop e to ((pair, summary) # rest) st =
     (case client_Send e to (''*PAIR*: `'' @ pair @ ''`'' @ nl @ ''`'' @ summary @ ''`'') False st of
        (None, st') \<Rightarrow> Profit_loop e to rest st'
      | (Some err, st') \<Rightarrow> Profit_loop e to rest (logError st'))"

definition ProfitHandle :: "env \<Rightarrow> handler" where
  "ProfitHandle e c st =
     (if length (Results e (trace st)) = 0
      then logged (client_Send e (Sender c) ''No trades registered.'' False st)
      else (None, Profit_loop e (Sender c) (Results e (trace st)) st))"

text \<open>Lines 229 to 234: the map from group names to submatches. Reading a Go map at a missing
  key gives the zero value, the empty string.\<close>

definition command_map :: "string list \<Rightarrow> string list \<Rightarrow> (string \<rightharpoonup> string)" where
  "command_map names match =
     fold (\<lambda>(i, name) command.
             if i \<noteq> 0 \<and> name \<noteq> [] then command(name \<mapsto> match ! i) else command)
       (zip [0 ..< length names] names) Map.empty"

definition index_map :: "(string \<rightharpoonup> string) \<Rightarrow> string \<Rightarrow> string" where
  "index_map command name = (case command name of None \<Rightarrow> [] | Some v \<Rightarrow> v)"

definition buyUsage :: string where
  "buyUsage = ''Invalid command.'' @ nl @ ''Examples of usage:'' @ nl @ ''`/buy BTCUSDT 100`'' @
     nl @ nl @ ''`/buy BTCUSDT 50%`''"

definition sellUsage :: string where
  "sellUsage = ''Invalid command.'' @ nl @ ''Example of usage:'' @ nl @ ''`/sell BTCUSDT 100`'' @
     nl @ nl @ ''`/sell BTCUSDT 50%`''"

text \<open>Lines 219 to 267.\<close>

definition BuyHandle :: "env \<Rightarrow> handler" where
  "BuyHandle e c st =
     (let match = FindStringSubmatch buyRegexp (Text c) in
      if length match = 0 then logged (client_Send e (Sender c) buyUsage False st)
      else
        let command = command_map (SubexpNames buyRegexp) match;
            pair = ToUpper (index_map command ''pair'')
        in case ParseFloat (index_map command ''amount'') of
             Inl err \<Rightarrow> (Some err, OnError e err (logError st))
           | Inr amount \<Rightarrow>
               if amount \<le> 0 then logged (client_Send e (Sender c) ''Invalid amount'' False st)
               else
                 (case (if index_map command ''percent'' \<noteq> []
                        then (case Controller_Position e pair st of
                                (Inl err, st') \<Rightarrow> Inl (err, OnError e err (logError st'))
                              | (Inr (asset, quote), st') \<Rightarrow> Inr (amount * quote / 100, st'))
                        else Inr (amount, st)) of
                    Inl (err, st') \<Rightarrow> (Some err, st')
                  | Inr (amount, st') \<Rightarrow>
                      (case Controller_CreateOrderMarketQuote e SideTypeBuy pair amount st' of
                         (Some err, st'') \<Rightarrow> (Some err, st'')
                       | (None, st'') \<Rightarrow> (None, logInfo st''))))"

text \<open>Lines 269 to 322.\<close>

definition SellHandle :: "env \<Rightarrow> handler" where
  "SellHandle e c st =
     (let match = FindStringSubmatch sellRegexp (Text c) in
      if length match = 0 then logged (client_Send e (Sender c) sellUsage False st)
      else
        let command = command_map (SubexpNames sellRegexp) match;
            pair = ToUpper (index_map command ''pair'')
        in case ParseFloat (index_map command ''amount'') of
             Inl err \<Rightarrow> (Some err, OnError e err (logError st))
           | Inr amount \<Rightarrow>
               if amount \<le> 0 then logged (client_Send e (Sender c) ''Invalid amount'' False st)
               else if index_map command ''percent'' \<noteq> []
               then (case Controller_Position e pair st of
                       (Inl err, st') \<Rightarrow> (Some err, st')
                     | (Inr (asset, quote), st') \<Rightarrow>
                         (case Controller_CreateOrderMarket e SideTypeSell pair
                                 (amount * asset / 100) st' of
                            (Some err, st'') \<Rightarrow> (Some err, st'')
                          | (None, st'') \<Rightarrow> (None, logInfo st'')))
               else
                 (case Controller_CreateOrderMarketQuote e SideTypeSell pair amount st of
                    (Some err, st') \<Rightarrow> (Some err, st')
                  | (None, st') \<Rightarrow> (None, logInfo st')))"

text \<open>Lines 324 to 331.\<close>

definition StatusHandle :: "env \<Rightarrow> handler" where
  "StatusHandle e c st =
     (case Controller_Status st of
        (status, st') \<Rightarrow>
          logged (client_Send e (Sender c) (''Status: `'' @ statusString e status @ ''`'') False st'))"

text \<open>Lines 333 to 348.\<close>

definition StartHandle :: "env \<Rightarrow> handler" where
  "StartHandle e c st =
     (case Controller_Status st of
        (status, st') \<Rightarrow>
          if status = StatusRunning
          then logged (client_Send e (Sender c) ''Bot is already running.'' True st')
          else logged (client_Send e (Sender c) ''Bot started.'' True (Controller_Start st')))"

text \<open>Lines 350 to 365.\<close>

definition StopHandle :: "env \<Rightarrow> handler" where
  "StopHandle e c st =
     (case Controller_Status st of
        (status, st') \<Rightarrow>
          if status = StatusStopped
          then logged (client_Send e (Sender c) ''Bot is already stopped.'' True st')
          else logged (client_Send e (Sender c) ''Bot stopped.'' True (Controller_Stop st')))"

subsection \<open>Dispatch\<close>

text \<open>Lines 103 to 110: the endpoints registered with \<^verbatim>\<open>client.Handle\<close>.\<close>

definition handlers :: "env \<Rightarrow> (string \<times> handler) list" where
  "handlers e =
     [(''/help'', HelpHandle e),
      (''/start'', StartHandle e),
      (''/stop'', StopHandle e),
      (''/status'', StatusHandle e),
      (''/balance'', BalanceHandle e),
      (''/profit'', ProfitHandle e),
      (''/buy'', BuyHandle e),
      (''/sell'', SellHandle e)]"

text \<open>What telebot does with an update that passed the filter: the handler registered for the
  endpoint of the message text runs on the context of the message, and its error is handed back
  to the library. Nothing runs when no endpoint is selected or none is registered for it.\<close>

definition ProcessUpdate :: "env \<Rightarrow> update \<Rightarrow> state \<Rightarrow> error option \<times> state" where
  "ProcessUpdate e u st =
     (case Message u of
        None \<Rightarrow> (None, st)
      | Some m \<Rightarrow>
          (case MsgSender m of
             None \<Rightarrow> (None, st)
           | Some sender \<Rightarrow>
               (case route e (MsgText m) of
                  None \<Rightarrow> (None, st)
                | Some endpoint \<Rightarrow>
                    (case map_of (handlers e) endpoint of
                       None \<Rightarrow> (None, st)
                     | Some h \<Rightarrow> h \<lparr>Sender = sender, Text = MsgText m\<rparr> st))))"

text \<open>The middleware poller of lines 38 to 58: an update reaches the bot only if the filter
  returns true; otherwise it is dropped.\<close>

definition Poll :: "env \<Rightarrow> update \<Rightarrow> state \<Rightarrow> error option \<times> state" where
  "Poll e u st =
     (case userMiddleware e u st of
        (True, st') \<Rightarrow> ProcessUpdate e u st'
      | (False, st') \<Rightarrow> (None, st'))"

subsection \<open>Observing a call\<close>

text \<open>The events that a call added to the trace, given the states before and after it.\<close>

definition events_since :: "state \<Rightarrow> state \<Rightarrow> event list" where
  "events_since st st' = drop (length (trace st)) (trace st')"

text \<open>Whether telebot selects the given endpoint for the message of an update.\<close>

definition routed :: "env \<Rightarrow> update \<Rightarrow> string \<Rightarrow> bool" where
  "routed e u endpoint =
     (case Message u of None \<Rightarrow> False | Some m \<Rightarrow> route e (MsgText m) = Some endpoint)"

subsection \<open>The error message and the balance report in closed form\<close>

text \<open>The text that \<^verbatim>\<open>OnError\<close> broadcasts for an error.\<close>

definition errorMessage :: "env \<Rightarrow> error \<Rightarrow> string" where
  "errorMessage e err =
     (case AsOrderError err of
        Some (pair, quantity, cause) \<Rightarrow>
          errorTitle @ nl @
          tab @ tab @ ''-----'' @ nl @
          tab @ tab @ ''Pair: '' @ pair @ nl @
          tab @ tab @ ''Quantity: '' @ fmtFloat e 4 quantity @ nl @
          tab @ tab @ ''-----'' @ nl @
          tab @ tab @ cause
      | None \<Rightarrow> errorTitle @ nl @ ''-----'' @ nl @ ErrorString err)"










subsection \<open>What a handler takes from the text of a command\<close>

datatype SizingMode = Absolute | PercentOfPosition

datatype parse_result =
    NoMatch
  | AmountError error
  | InvalidAmount
  | Intent string float64 SizingMode

text \<open>
  Lines 220 to 250 of \<^verbatim>\<open>BuyHandle\<close> and lines 270 to 301 of \<^verbatim>\<open>SellHandle\<close> are the same but
  for the regular expression. \<open>parseCommand\<close> is that common part with its four ways out: the
  text has no match, \<^verbatim>\<open>ParseFloat\<close> fails on the amount, the amount is not positive, or
  there are a pair, a positive amount and the answer to \<^verbatim>\<open>command["percent"] != ""\<close>.
\<close>

definition parseCommand :: "regex \<Rightarrow> string \<Rightarrow> parse_result" where
  "parseCommand re text =
     (let match = FindStringSubmatch re text in
      if length match = 0 then NoMatch
      else
        let command = command_map (SubexpNames re) match;
            pair = ToUpper (index_map command ''pair'')
        in case ParseFloat (index_map command ''amount'') of
             Inl err \<Rightarrow> AmountError err
           | Inr amount \<Rightarrow>
               if amount \<le> 0 then InvalidAmount
               else Intent pair amount
                 (if index_map command ''percent'' \<noteq> [] then PercentOfPosition else Absolute))"

text \<open>An environment and a state to run the handlers on: two operators, and every call
  succeeds. The position of every pair is 1.5 of the asset and 1000 of the quote currency. A
  message is routed to the endpoint that is its first word.\<close>

definition exampleEnv :: env where
  "exampleEnv =
     \<lparr>Users = [1, 2],
      Pairs = [''BTCUSDT''],
      sendErr = (\<lambda>tr. None),
      commandsRes = (\<lambda>tr. Inr []),
      accountRes = (\<lambda>tr. Inr (\<lambda>a q. (\<lparr>Free = 0, Lock = 0\<rparr>, \<lparr>Free = 0, Lock = 0\<rparr>))),
      lastQuoteRes = (\<lambda>tr. Inr 1),
      positionRes = (\<lambda>tr. Inr (3 / 2, 1000)),
      orderRes = (\<lambda>tr. None),
      Results = (\<lambda>tr. []),
      SplitAssetQuote = (\<lambda>pair. (take 3 pair, drop 3 pair)),
      fmtFloat = (\<lambda>n x. []),
      statusString = (\<lambda>s. []),
      mapRange = (\<lambda>m. []),
      route = (\<lambda>text. Some (takeWhile (\<lambda>c. \<not> is_space c) text))\<rparr>"

definition exampleState :: state where
  "exampleState = \<lparr>trace = [], runState = StatusStopped\<rparr>"

definition exampleError :: error where
  "exampleError = Error ''engine unavailable'' None"

text \<open>The same environment with three operators and a transport that fails on every send to
  operator 2.\<close>

definition failingEnv :: env where
  "failingEnv =
     exampleEnv
       \<lparr>Users := [1, 2, 3],
        sendErr := (\<lambda>tr. case last tr of
                            EvSend to text menu \<Rightarrow> if to = 2 then Some exampleError else None
                          | _ \<Rightarrow> None)\<rparr>"

subsection \<open>The language of a regular expression\<close>



text \<open>The tokens of a text of the order grammar after the keyword: white space, the pair, white
  space, the amount and the optional percent sign.\<close>

definition order_tokens :: "string \<Rightarrow> string \<Rightarrow> string \<Rightarrow> string \<Rightarrow> string \<Rightarrow> bool" where
  "order_tokens ws1 pair ws2 amount percent \<longleftrightarrow>
     ws1 \<noteq> [] \<and> list_all is_space ws1 \<and>
     pair \<noteq> [] \<and> list_all is_word pair \<and>
     ws2 \<noteq> [] \<and> list_all is_space ws2 \<and>
     is_decimal amount \<and>
     (percent = [] \<or> percent = ''%'')"


text \<open>A decimal of 310 digits, the number \<open>10^309\<close>: more than any float64.\<close>

definition hugeAmount :: string where
  "hugeAmount = ''1'' @ replicate 309 (CHR ''0'')"

text \<open>A buy command with that amount.\<close>

definition hugeOrder :: string where
  "hugeOrder = ''/buy BTCUSDT '' @ hugeAmount"

section \<open>Properties\<close>

subsection \<open>Traces\<close>

lemma trace_emit [simp]: "trace (emit ev st) = trace st @ [ev]"
  by (simp add: emit_def)

lemma runState_emit [simp]: "runState (emit ev st) = runState st"
  by (simp add: emit_def)

lemma events_since_self [simp]: "events_since st st = []"
  by (simp add: events_since_def)

lemma events_since_emit [simp]: "events_since st (emit ev st) = [ev]"
  by (simp add: events_since_def)

lemma logged_Send_events:
  "events_since st0 (snd (logged (client_Send e to text menu st))) =
     events_since st0 st @ [EvSend (ID to) text menu] @
     (if fst (logged (client_Send e to text menu st)) = None then [] else [EvLogError])"
  if "length (trace st0) \<le> length (trace st)"
  using that by (auto simp: events_since_def logged_def client_Send_def Let_def logError_def
      split: option.splits)

lemma reply_events:
  "events_since st (snd (logged (client_Send e to text menu st))) =
     [EvSend (ID to) text menu] @
     (if fst (logged (client_Send e to text menu st)) = None then [] else [EvLogError])"
  using logged_Send_events [of st st e to "text" menu] by simp

lemma reply_result:
  "fst (logged (client_Send e to text menu st)) = sendErr e (trace st @ [EvSend (ID to) text menu])"
  by (simp add: logged_def client_Send_def Let_def split: option.splits)

subsection \<open>Notification fan-out\<close>

lemma Notify_loop_trace:
  "\<exists>evs. trace (Notify_loop e text users st) = trace st @ evs \<and>
     [ev \<leftarrow> evs. ev \<noteq> EvLogError] = map (\<lambda>user. EvSend (ucast user) text False) users"
proof (induction users arbitrary: st)
  case Nil
  then show ?case by simp
next
  case (Cons user users)
  obtain r st' where s: "client_Send e \<lparr>ID = ucast user\<rparr> text False st = (r, st')"
    by (cases "client_Send e \<lparr>ID = ucast user\<rparr> text False st")
  then have t: "trace st' = trace st @ [EvSend (ucast user) text False]"
    by (auto simp: client_Send_def Let_def)
  show ?case
  proof (cases r)
    case None
    from Cons.IH [of st'] obtain evs where
      "trace (Notify_loop e text users st') = trace st' @ evs"
      "[ev \<leftarrow> evs. ev \<noteq> EvLogError] = map (\<lambda>user. EvSend (ucast user) text False) users"
      by blast
    with s t None show ?thesis by simp
  next
    case (Some err)
    from Cons.IH [of "logError st'"] obtain evs where
      "trace (Notify_loop e text users (logError st')) = trace (logError st') @ evs"
      "[ev \<leftarrow> evs. ev \<noteq> EvLogError] = map (\<lambda>user. EvSend (ucast user) text False) users"
      by blast
    with s t Some show ?thesis by (simp add: logError_def)
  qed
qed

lemma Notify_loop_runState [simp]: "runState (Notify_loop e text users st) = runState st"
  by (induction users arbitrary: st)
    (auto simp: client_Send_def Let_def logError_def split: option.splits)

text \<open>
  Claim C8. For every message body, every allow-list and every way the sends fail or succeed
  (the environment is arbitrary), \<^verbatim>\<open>Notify\<close> attempts exactly one send of the body to each
  user of the list, in the order of the list; everything else it does is logging. A failed send
  stops nothing. \<^verbatim>\<open>Notify\<close> returns the state only: it has no error to hand to its caller, and
  it leaves the run state alone.
\<close>

theorem Notify_fanout:
  "\<exists>evs. trace (Notify e text st) = trace st @ evs \<and>
     [ev \<leftarrow> evs. ev \<noteq> EvLogError] = map (\<lambda>user. EvSend (ucast user) text False) (Users e) \<and>
     runState (Notify e text st) = runState st"
  using Notify_loop_trace [of e "text" "Users e" st] by (auto simp: Notify_def)

text \<open>Three operators, and the transport fails for the second: all three sends are attempted,
  and the failure leaves one log entry between the second and the third.\<close>

theorem Notify_fanout_witness:
  "trace (Notify failingEnv ''order filled'' exampleState) =
     [EvSend 1 ''order filled'' False, EvSend 2 ''order filled'' False, EvLogError,
      EvSend 3 ''order filled'' False]"
proof -
  from Notify_fanout [of failingEnv "''order filled''" exampleState]
  obtain evs where "trace (Notify failingEnv ''order filled'' exampleState) = trace exampleState @ evs"
    by blast
  then show ?thesis
    by (simp add: Notify_def client_Send_def emit_def logError_def failingEnv_def exampleEnv_def
        exampleState_def)
qed

subsection \<open>The access filter\<close>

lemma users_loop_iff: "users_loop users sid \<longleftrightarrow> sid \<in> set users"
  by (induction users) auto

lemma userMiddleware_eq:
  "userMiddleware e u st =
     (if \<exists>m sender. Message u = Some m \<and> MsgSender m = Some sender \<and> ID sender \<in> set (Users e)
      then (True, st) else (False, logError st))"
  by (auto simp: userMiddleware_def users_loop_iff split: option.splits)

text \<open>
  Claim C4. The filter accepts an update exactly when it carries a message with a sender whose
  identity is an entry of \<^verbatim>\<open>settings.Telegram.Users\<close>. An accepted update goes on to the
  dispatch unchanged. Any other update, one without message or sender included, is dropped: the
  filter returns false, and all that happens is one log entry, so nothing is sent and no handler
  runs. The filter sits in front of the dispatch and so in front of every endpoint,
  \<^verbatim>\<open>/help\<close> included.
\<close>

theorem access_filter:
  "userMiddleware e u st =
     (if \<exists>m sender. Message u = Some m \<and> MsgSender m = Some sender \<and> ID sender \<in> set (Users e)
      then (True, st) else (False, logError st)) \<and>
   Poll e u st =
     (if \<exists>m sender. Message u = Some m \<and> MsgSender m = Some sender \<and> ID sender \<in> set (Users e)
      then ProcessUpdate e u st else (None, logError st)) \<and>
   events_since st (logError st) = [EvLogError]"
  by (auto simp: userMiddleware_eq Poll_def events_since_def logError_def)

text \<open>With operators 1 and 2: a message of sender 7 and a message without sender are dropped with a
  log entry, and \<^verbatim>\<open>/status\<close> of operator 2 reaches its handler.\<close>

theorem access_filter_witness:
  "Poll exampleEnv \<lparr>Message = Some \<lparr>MsgSender = Some \<lparr>ID = 7\<rparr>, MsgText = ''/help''\<rparr>\<rparr> exampleState =
     (None, exampleState\<lparr>trace := [EvLogError]\<rparr>) \<and>
   Poll exampleEnv \<lparr>Message = Some \<lparr>MsgSender = None, MsgText = ''/help''\<rparr>\<rparr> exampleState =
     (None, exampleState\<lparr>trace := [EvLogError]\<rparr>) \<and>
   Poll exampleEnv \<lparr>Message = Some \<lparr>MsgSender = Some \<lparr>ID = 2\<rparr>, MsgText = ''/status''\<rparr>\<rparr> exampleState =
     (None, exampleState\<lparr>trace := [EvStatus, EvSend 2 ''Status: ``'' False]\<rparr>)"
  using
    access_filter [of exampleEnv "\<lparr>Message = Some \<lparr>MsgSender = Some \<lparr>ID = 7\<rparr>, MsgText = ''/help''\<rparr>\<rparr>"
      exampleState]
    access_filter [of exampleEnv "\<lparr>Message = Some \<lparr>MsgSender = None, MsgText = ''/help''\<rparr>\<rparr>"
      exampleState]
    access_filter [of exampleEnv "\<lparr>Message = Some \<lparr>MsgSender = Some \<lparr>ID = 2\<rparr>, MsgText = ''/status''\<rparr>\<rparr>"
      exampleState]
  by (simp add: Poll_def userMiddleware_def ProcessUpdate_def handlers_def StatusHandle_def
      Controller_Status_def client_Send_def logged_def emit_def logError_def exampleEnv_def
      exampleState_def is_space_def)

subsection \<open>The run state\<close>

lemma runState_logError [simp]: "runState (logError st) = runState st"
  by (simp add: logError_def)

lemma runState_logInfo [simp]: "runState (logInfo st) = runState st"
  by (simp add: logInfo_def)

lemma runState_client_Send [simp]: "runState (snd (client_Send e to text menu st)) = runState st"
  by (simp add: client_Send_def Let_def)

lemma runState_logged [simp]: "runState (snd (logged r)) = runState (snd r)"
  by (simp add: logged_def split: prod.splits option.splits)

lemma runState_Notify [simp]: "runState (Notify e text st) = runState st"
  by (simp add: Notify_def)

lemma runState_OnError [simp]: "runState (OnError e err st) = runState st"
  by (simp add: OnError_def split: option.splits prod.splits)

lemma runState_Balance_loop [simp]:
  "runState (snd (Balance_loop e account pairs acc st)) = runState st"
  by (induction e account pairs acc st rule: Balance_loop.induct)
    (auto simp: Controller_LastQuote_def Let_def split: prod.splits sum.splits)

lemma runState_BalanceHandle [simp]: "runState (snd (BalanceHandle e c st)) = runState st"
proof -
  have "runState (snd (Balance_loop e account (Pairs e) acc st')) = runState st'" for account acc st'
    by simp
  then show ?thesis
    by (auto simp: BalanceHandle_def Controller_Account_def Let_def simp del: runState_Balance_loop
        split: prod.splits sum.splits dest!: arg_cong [where f = "\<lambda>x. runState (snd x)"])
qed

lemma runState_Profit_loop [simp]: "runState (Profit_loop e to rs st) = runState st"
  by (induction e to rs st rule: Profit_loop.induct)
    (auto simp: client_Send_def Let_def split: prod.splits option.splits)

lemma runState_ProfitHandle [simp]: "runState (snd (ProfitHandle e c st)) = runState st"
  by (simp add: ProfitHandle_def)

lemma runState_HelpHandle [simp]: "runState (snd (HelpHandle e c st)) = runState st"
  by (auto simp: HelpHandle_def client_Commands_def Let_def split: sum.splits)

lemma runState_StatusHandle [simp]: "runState (snd (StatusHandle e c st)) = runState st"
  by (simp add: StatusHandle_def Controller_Status_def)

lemma runState_BuyHandle [simp]: "runState (snd (BuyHandle e c st)) = runState st"
  by (auto simp: BuyHandle_def Let_def Controller_Position_def Controller_CreateOrderMarketQuote_def
      split: sum.splits prod.splits option.splits)

lemma runState_SellHandle [simp]: "runState (snd (SellHandle e c st)) = runState st"
  by (auto simp: SellHandle_def Let_def Controller_Position_def Controller_CreateOrderMarketQuote_def
      Controller_CreateOrderMarket_def
      split: sum.splits prod.splits option.splits)

lemma StartHandle_events:
  "events_since st (snd (StartHandle e c st)) =
     (if runState st = StatusRunning
      then [EvStatus, EvSend (ID (Sender c)) ''Bot is already running.'' True]
      else [EvStatus, EvStart, EvSend (ID (Sender c)) ''Bot started.'' True]) @
     (if fst (StartHandle e c st) = None then [] else [EvLogError])"
  by (simp add: StartHandle_def Controller_Status_def Controller_Start_def logged_Send_events)
    (simp add: events_since_def)

lemma StopHandle_events:
  "events_since st (snd (StopHandle e c st)) =
     (if runState st = StatusStopped
      then [EvStatus, EvSend (ID (Sender c)) ''Bot is already stopped.'' True]
      else [EvStatus, EvStop, EvSend (ID (Sender c)) ''Bot stopped.'' True]) @
     (if fst (StopHandle e c st) = None then [] else [EvLogError])"
  by (simp add: StopHandle_def Controller_Status_def Controller_Stop_def logged_Send_events)
    (simp add: events_since_def)

lemma runState_StartHandle [simp]: "runState (snd (StartHandle e c st)) = StatusRunning"
  by (simp add: StartHandle_def Controller_Status_def Controller_Start_def)

lemma runState_StopHandle [simp]: "runState (snd (StopHandle e c st)) = StatusStopped"
  by (simp add: StopHandle_def Controller_Status_def Controller_Stop_def)

lemma handlers_runState:
  assumes "map_of (handlers e) endpoint = Some h"
  shows "runState (snd (h c st)) = runState st \<or>
         endpoint = ''/start'' \<and> h = StartHandle e \<or> endpoint = ''/stop'' \<and> h = StopHandle e"
  using assms by (auto simp: handlers_def split: if_splits)

lemma Poll_runState:
  "runState (snd (Poll e u st)) = runState st \<or>
   runState st = StatusStopped \<and> runState (snd (Poll e u st)) = StatusRunning \<and>
     routed e u ''/start'' \<or>
   runState st = StatusRunning \<and> runState (snd (Poll e u st)) = StatusStopped \<and>
     routed e u ''/stop''"
proof (cases "\<exists>m sender. Message u = Some m \<and> MsgSender m = Some sender \<and> ID sender \<in> set (Users e)")
  case False
  then have "Poll e u st = (None, logError st)"
    by (auto simp: Poll_def userMiddleware_eq)
  then show ?thesis by simp
next
  case True
  then obtain m sender where m: "Message u = Some m" "MsgSender m = Some sender"
    by blast
  from True have p: "Poll e u st = ProcessUpdate e u st"
    by (auto simp: Poll_def userMiddleware_eq)
  show ?thesis
  proof (cases "route e (MsgText m)")
    case None
    with m p show ?thesis by (simp add: ProcessUpdate_def)
  next
    case (Some endpoint)
    show ?thesis
    proof (cases "map_of (handlers e) endpoint")
      case None
      with m p Some show ?thesis by (simp add: ProcessUpdate_def)
    next
      case (Some h)
      let ?c = "\<lparr>Sender = sender, Text = MsgText m\<rparr>"
      from m p \<open>route e (MsgText m) = Some endpoint\<close> Some
      have r: "Poll e u st = h ?c st"
        by (simp add: ProcessUpdate_def)
      from handlers_runState [OF Some, of ?c st] m \<open>route e (MsgText m) = Some endpoint\<close>
      show ?thesis
        unfolding r by (cases "runState st") (auto simp: routed_def)
    qed
  qed
qed

text \<open>
  Claim C7. \<^verbatim>\<open>StartHandle\<close> calls \<^verbatim>\<open>Start\<close> of the controller exactly when the status is not
  Running; when it is Running the handler reads the status and sends the reply
  "Bot is already running." and nothing else. \<^verbatim>\<open>StopHandle\<close> is symmetric for Stopped. Whatever
  update is polled, the run state stays as it was, or goes from Stopped to Running on an update
  routed to \<^verbatim>\<open>/start\<close>, or from Running to Stopped on one routed to \<^verbatim>\<open>/stop\<close>.
\<close>

theorem run_state_transitions:
  "events_since st (snd (StartHandle e c st)) =
     (if runState st = StatusRunning
      then [EvStatus, EvSend (ID (Sender c)) ''Bot is already running.'' True]
      else [EvStatus, EvStart, EvSend (ID (Sender c)) ''Bot started.'' True]) @
     (if fst (StartHandle e c st) = None then [] else [EvLogError]) \<and>
   events_since st (snd (StopHandle e c st)) =
     (if runState st = StatusStopped
      then [EvStatus, EvSend (ID (Sender c)) ''Bot is already stopped.'' True]
      else [EvStatus, EvStop, EvSend (ID (Sender c)) ''Bot stopped.'' True]) @
     (if fst (StopHandle e c st) = None then [] else [EvLogError]) \<and>
   (EvStart \<in> set (events_since st (snd (StartHandle e c st))) \<longleftrightarrow> runState st \<noteq> StatusRunning) \<and>
   (EvStop \<in> set (events_since st (snd (StopHandle e c st))) \<longleftrightarrow> runState st \<noteq> StatusStopped) \<and>
   runState (snd (StartHandle e c st)) = StatusRunning \<and>
   runState (snd (StopHandle e c st)) = StatusStopped \<and>
   (runState (snd (Poll e u st)) = runState st \<or>
    runState st = StatusStopped \<and> runState (snd (Poll e u st)) = StatusRunning \<and>
      routed e u ''/start'' \<or>
    runState st = StatusRunning \<and> runState (snd (Poll e u st)) = StatusStopped \<and>
      routed e u ''/stop'')"
proof -
  have "EvStart \<in> set (events_since st (snd (StartHandle e c st))) \<longleftrightarrow> runState st \<noteq> StatusRunning"
    by (simp add: StartHandle_events)
  moreover have "EvStop \<in> set (events_since st (snd (StopHandle e c st))) \<longleftrightarrow> runState st \<noteq> StatusStopped"
    by (simp add: StopHandle_events)
  ultimately show ?thesis
    using StartHandle_events [of st e c] StopHandle_events [of st e c] Poll_runState [of e u st]
    by simp
qed

text \<open>Polled updates of operator 1: \<^verbatim>\<open>/start\<close> on a stopped engine starts it, \<^verbatim>\<open>/start\<close> on a
  running engine only replies, and \<^verbatim>\<open>/stop\<close> on a running engine stops it.\<close>

theorem run_state_transitions_witness:
  "Poll exampleEnv \<lparr>Message = Some \<lparr>MsgSender = Some \<lparr>ID = 1\<rparr>, MsgText = ''/start''\<rparr>\<rparr> exampleState =
     (None, \<lparr>trace = [EvStatus, EvStart, EvSend 1 ''Bot started.'' True], runState = StatusRunning\<rparr>) \<and>
   Poll exampleEnv \<lparr>Message = Some \<lparr>MsgSender = Some \<lparr>ID = 1\<rparr>, MsgText = ''/start''\<rparr>\<rparr>
     \<lparr>trace = [], runState = StatusRunning\<rparr> =
     (None, \<lparr>trace = [EvStatus, EvSend 1 ''Bot is already running.'' True], runState = StatusRunning\<rparr>) \<and>
   Poll exampleEnv \<lparr>Message = Some \<lparr>MsgSender = Some \<lparr>ID = 1\<rparr>, MsgText = ''/stop''\<rparr>\<rparr>
     \<lparr>trace = [], runState = StatusRunning\<rparr> =
     (None, \<lparr>trace = [EvStatus, EvStop, EvSend 1 ''Bot stopped.'' True], runState = StatusStopped\<rparr>)"
  using
    run_state_transitions [of exampleState exampleEnv "\<lparr>Sender = \<lparr>ID = 1\<rparr>, Text = ''/start''\<rparr>"
      "\<lparr>Message = Some \<lparr>MsgSender = Some \<lparr>ID = 1\<rparr>, MsgText = ''/start''\<rparr>\<rparr>"]
  by (simp add: Poll_def userMiddleware_def ProcessUpdate_def handlers_def StartHandle_def
      StopHandle_def Controller_Status_def Controller_Start_def Controller_Stop_def
      client_Send_def logged_def emit_def logError_def exampleEnv_def exampleState_def
      is_space_def)

subsection \<open>The balance report\<close>

lemma OnError_eq: "OnError e err st = Notify e (errorMessage e err) st"
  by (simp add: OnError_def errorMessage_def split: option.splits prod.splits)








lemma OnError_events:
  "\<exists>evs. trace (OnError e err st) = trace st @ evs \<and>
     [ev \<leftarrow> evs. ev \<noteq> EvLogError] = map (\<lambda>user. EvSend (ucast user) (errorMessage e err) False) (Users e)"
  unfolding OnError_eq Notify_def by (rule Notify_loop_trace)

lemma OnError_logged_events:
  "\<exists>evs. events_since st (OnError e err (logError st)) = EvLogError # evs \<and>
     [ev \<leftarrow> evs. ev \<noteq> EvLogError] =
       map (\<lambda>user. EvSend (ucast user) (errorMessage e err) False) (Users e)"
proof -
  from OnError_events [of e err "logError st"] obtain evs where
    "trace (OnError e err (logError st)) = trace (logError st) @ evs"
    "[ev \<leftarrow> evs. ev \<noteq> EvLogError] = map (\<lambda>user. EvSend (ucast user) (errorMessage e err) False) (Users e)"
    by blast
  then have "events_since st (OnError e err (logError st)) = EvLogError # evs \<and>
     [ev \<leftarrow> evs. ev \<noteq> EvLogError] =
       map (\<lambda>user. EvSend (ucast user) (errorMessage e err) False) (Users e)"
    by (simp add: events_since_def logError_def)
  then show ?thesis by blast
qed





subsection \<open>The matcher and the language\<close>










lemma FindStringSubmatch_hd:
  "alts re s Map.empty = (s', c) # ps \<Longrightarrow> FindStringSubmatch re s = submatches re s s' c"
  by (cases s) simp_all


subsection \<open>The language of the order grammar\<close>

lemma takeWhile_class:
  assumes "list_all P xs" and "ys = [] \<or> \<not> P (hd ys)"
  shows "takeWhile P (xs @ ys) = xs" and "dropWhile P (xs @ ys) = ys"
  using assms by (induction xs) (auto simp: takeWhile_eq_Nil_iff dropWhile_eq_self_iff)


lemma is_decimal_split:
  assumes "is_decimal amt"
  obtains ds fr where "amt = ds @ fr" "ds \<noteq> []" "list_all is_digit ds"
    "fr = [] \<or> (\<exists>fs. fr = CHR ''.'' # fs \<and> fs \<noteq> [] \<and> list_all is_digit fs)"
proof -
  let ?ds = "takeWhile is_digit amt" and ?fr = "dropWhile is_digit amt"
  have a: "amt = ?ds @ ?fr" by simp
  have d: "list_all is_digit ?ds"
    by (simp add: list_all_iff) (meson set_takeWhileD)
  from assms have n: "?ds \<noteq> []"
    and f: "?fr = [] \<or> (take 1 ?fr = ''.'' \<and> drop 1 ?fr \<noteq> [] \<and> list_all is_digit (drop 1 ?fr))"
    by (simp_all add: is_decimal_def Let_def)
  from f have "?fr = [] \<or> (\<exists>fs. ?fr = CHR ''.'' # fs \<and> fs \<noteq> [] \<and> list_all is_digit fs)"
    by (cases ?fr) auto
  with a n d show thesis by (rule that)
qed








subsection \<open>The first match of the order grammar\<close>

lemma space_not_word: "is_space c \<Longrightarrow> \<not> is_word c"
  by (auto simp: is_space_def is_word_def)

lemma space_not_digit: "is_space c \<Longrightarrow> \<not> is_digit c"
  by (auto simp: is_space_def is_digit_def)

lemma rep1_Nil_iff: "rep1 P s = [] \<longleftrightarrow> takeWhile P s = []"
  by (cases s) auto

lemma rep1_hd: "takeWhile P s \<noteq> [] \<Longrightarrow> \<exists>more. rep1 P s = dropWhile P s # more"
proof (induction s)
  case Nil
  then show ?case by simp
next
  case (Cons x xs)
  then have px: "P x" by (auto split: if_splits)
  show ?case
  proof (cases "takeWhile P xs = []")
    case True
    then have "rep1 P xs = []" by (simp add: rep1_Nil_iff)
    moreover from True have "dropWhile P xs = xs"
      by (cases xs) (auto split: if_splits)
    ultimately show ?thesis using px by simp
  next
    case False
    from Cons.IH [OF this] px show ?thesis by auto
  qed
qed

lemma rep1_fail: "s = [] \<or> \<not> P (hd s) \<Longrightarrow> rep1 P s = []"
  by (cases s) auto

lemma concat_map_rep1_skip:
  assumes "\<And>s'. s' \<noteq> [] \<Longrightarrow> P (hd s') \<Longrightarrow> f s' = []"
  shows "concat (map f (rep1 P s)) = (if takeWhile P s = [] then [] else f (dropWhile P s))"
proof (induction s)
  case Nil
  then show ?case by simp
next
  case (Cons x xs)
  show ?case
  proof (cases "P x")
    case False
    then show ?thesis by simp
  next
    case True
    show ?thesis
    proof (cases "takeWhile P xs = []")
      case e: True
      then have "dropWhile P xs = xs" by (cases xs) (auto split: if_splits)
      with True e Cons.IH show ?thesis by simp
    next
      case ne: False
      then have "xs \<noteq> []" "P (hd xs)" by (cases xs; auto split: if_splits)+
      then have "f xs = []" by (rule assms)
      with True ne Cons.IH show ?thesis by simp
    qed
  qed
qed

lemma take_minus_dropWhile: "take (length s - length (dropWhile P s)) s = takeWhile P s"
proof -
  have "length (takeWhile P s @ dropWhile P s) = length s"
    by (simp only: takeWhile_dropWhile_id)
  then have "length s - length (dropWhile P s) = length (takeWhile P s)"
    by (simp only: length_append)
  then show ?thesis by (simp add: takeWhile_eq_take [symmetric])
qed

lemma alts_Seq_Rep1_fail: "s = [] \<or> \<not> P (hd s) \<Longrightarrow> alts (Seq (Rep1 P) b) s c = []"
  by (simp add: rep1_fail)

lemma alts_Seq_Group_Rep1_fail:
  "s = [] \<or> \<not> P (hd s) \<Longrightarrow> alts (Seq (Group i n (Rep1 P)) b) s c = []"
  by (simp add: rep1_fail)

lemma alts_Seq_Group_Seq_Rep1_fail:
  "s = [] \<or> \<not> P (hd s) \<Longrightarrow> alts (Seq (Group i n (Seq (Rep1 P) a)) b) s c = []"
  by (simp add: rep1_fail)

lemma alts_Seq_Rep1_skip:
  assumes "\<And>s' c'. s' \<noteq> [] \<Longrightarrow> P (hd s') \<Longrightarrow> alts b s' c' = []"
  shows "alts (Seq (Rep1 P) b) s c =
     (if takeWhile P s = [] then [] else alts b (dropWhile P s) c)"
  using concat_map_rep1_skip [of P "\<lambda>s'. alts b s' c" s] assms
  by (simp add: comp_def)

lemma alts_Seq_Group_Rep1_skip:
  assumes "\<And>s' c'. s' \<noteq> [] \<Longrightarrow> P (hd s') \<Longrightarrow> alts b s' c' = []"
  shows "alts (Seq (Group i n (Rep1 P)) b) s c =
     (if takeWhile P s = [] then [] else alts b (dropWhile P s) (c(i \<mapsto> takeWhile P s)))"
  using concat_map_rep1_skip [of P "\<lambda>s'. alts b s' (c(i \<mapsto> take (length s - length s') s))" s] assms
  by (simp add: comp_def take_minus_dropWhile)


lemma alts_amount_percent:
  assumes dec: "is_decimal amt" and pct: "pct = [] \<or> pct = ''%''"
  shows "\<exists>more.
     alts (Seq (Group 2 n2 (Seq (Rep1 is_digit) (Opt (Seq (Lit ''.'') (Rep1 is_digit)))))
               (Opt (Group 3 n3 (Lit ''%'')))) (amt @ pct) c =
     ([], if pct = [] then c(2 \<mapsto> amt) else c(2 \<mapsto> amt, 3 \<mapsto> ''%'')) # more"
proof -
  from dec obtain ds fr where amt: "amt = ds @ fr" and ds: "ds \<noteq> []" "list_all is_digit ds"
    and fr: "fr = [] \<or> (\<exists>fs. fr = CHR ''.'' # fs \<and> fs \<noteq> [] \<and> list_all is_digit fs)"
    by (rule is_decimal_split)
  have nd: "\<not> is_digit CHR ''.''" "\<not> is_digit CHR ''%''"
    by (simp_all add: is_digit_def)
  from pct nd have p: "pct = [] \<or> \<not> is_digit (hd pct)" by auto
  from fr pct nd have q: "fr @ pct = [] \<or> \<not> is_digit (hd (fr @ pct))" by auto
  from ds q have t: "takeWhile is_digit (amt @ pct) = ds" "dropWhile is_digit (amt @ pct) = fr @ pct"
    unfolding amt by (simp_all add: takeWhile_class)
  with ds rep1_hd [of is_digit "amt @ pct"] obtain m1 where
    r1: "rep1 is_digit (amt @ pct) = (fr @ pct) # m1" by auto
  \<comment> \<open>the optional fraction after the longest run of digits\<close>
  have "\<exists>m2. alts (Opt (Seq (Lit ''.'') (Rep1 is_digit))) (fr @ pct) c = (pct, c) # m2"
    using fr
  proof
    assume "fr = []"
    with pct show ?thesis by auto
  next
    assume "\<exists>fs. fr = CHR ''.'' # fs \<and> fs \<noteq> [] \<and> list_all is_digit fs"
    then obtain fs where fs: "fr = CHR ''.'' # fs" "fs \<noteq> []" "list_all is_digit fs" by blast
    with p have "takeWhile is_digit (fs @ pct) = fs" "dropWhile is_digit (fs @ pct) = pct"
      by (simp_all add: takeWhile_class)
    with fs rep1_hd [of is_digit "fs @ pct"] obtain m where "rep1 is_digit (fs @ pct) = pct # m"
      by auto
    with fs show ?thesis by simp
  qed
  then obtain m2 where o: "alts (Opt (Seq (Lit ''.'') (Rep1 is_digit))) (fr @ pct) c = (pct, c) # m2"
    by blast
  have "\<exists>m3. alts (Seq (Rep1 is_digit) (Opt (Seq (Lit ''.'') (Rep1 is_digit)))) (amt @ pct) c =
      (pct, c) # m3"
    using r1 o by (simp del: alts.simps(3))
  then obtain m3 where a: "alts (Seq (Rep1 is_digit) (Opt (Seq (Lit ''.'') (Rep1 is_digit))))
      (amt @ pct) c = (pct, c) # m3" by blast
  have "\<exists>m4. alts (Group 2 n2 (Seq (Rep1 is_digit) (Opt (Seq (Lit ''.'') (Rep1 is_digit)))))
      (amt @ pct) c = (pct, c(2 \<mapsto> amt)) # m4"
    unfolding alts.simps(5) a by simp
  then obtain m4 where g: "alts (Group 2 n2 (Seq (Rep1 is_digit) (Opt (Seq (Lit ''.'') (Rep1 is_digit)))))
      (amt @ pct) c = (pct, c(2 \<mapsto> amt)) # m4" by blast
  have "\<exists>m5. alts (Opt (Group 3 n3 (Lit ''%''))) pct (c(2 \<mapsto> amt)) =
      ([], if pct = [] then c(2 \<mapsto> amt) else c(2 \<mapsto> amt, 3 \<mapsto> ''%'')) # m5"
    using pct by auto
  then obtain m5 where h: "alts (Opt (Group 3 n3 (Lit ''%''))) pct (c(2 \<mapsto> amt)) =
      ([], if pct = [] then c(2 \<mapsto> amt) else c(2 \<mapsto> amt, 3 \<mapsto> ''%'')) # m5" by blast
  show ?thesis
    unfolding alts.simps(4) [of "Group 2 n2 (Seq (Rep1 is_digit) (Opt (Seq (Lit ''.'') (Rep1 is_digit))))"] g
    using h by simp
qed

lemma alts_orderRegexp_full:
  assumes ws1: "ws1 \<noteq> []" "list_all is_space ws1"
    and pair: "pair \<noteq> []" "list_all is_word pair"
    and ws2: "ws2 \<noteq> []" "list_all is_space ws2"
    and dec: "is_decimal amt"
    and pct: "pct = [] \<or> pct = ''%''"
  shows "\<exists>more.
     alts (orderRegexp keyword) (keyword @ ws1 @ pair @ ws2 @ amt @ pct) Map.empty =
     ([], if pct = [] then [1 \<mapsto> pair, 2 \<mapsto> amt] else [1 \<mapsto> pair, 2 \<mapsto> amt, 3 \<mapsto> ''%'']) # more"
proof -
  let ?A = "Group 2 ''amount'' (Seq (Rep1 is_digit) (Opt (Seq (Lit ''.'') (Rep1 is_digit))))"
  let ?R4 = "Seq ?A (Opt (Group 3 ''percent'' (Lit ''%'')))"
  let ?R3 = "Seq (Rep1 is_space) ?R4"
  let ?R2 = "Seq (Group 1 ''pair'' (Rep1 is_word)) ?R3"
  let ?R1 = "Seq (Rep1 is_space) ?R2"
  from dec have "takeWhile is_digit amt \<noteq> []" by (simp add: is_decimal_def Let_def)
  then have amt: "amt \<noteq> []" "is_digit (hd amt)"
    by (cases amt; auto split: if_splits)+
  from pair have hp: "is_word (hd pair)" by (cases pair) auto
  from ws2 have hw: "is_space (hd ws2)" by (cases ws2) auto
  have f2: "alts ?R2 s' c' = []" if "s' \<noteq> []" "is_space (hd s')" for s' c'
    using that by (intro alts_Seq_Group_Rep1_fail) (auto dest: space_not_word)
  have f3: "alts ?R3 s' c' = []" if "s' \<noteq> []" "is_word (hd s')" for s' c'
    using that by (intro alts_Seq_Rep1_fail) (auto dest: space_not_word)
  have f4: "alts ?R4 s' c' = []" if "s' \<noteq> []" "is_space (hd s')" for s' c'
    using that by (intro alts_Seq_Group_Seq_Rep1_fail) (auto dest: space_not_digit)
  have c1: "pair @ ws2 @ amt @ pct = [] \<or> \<not> is_space (hd (pair @ ws2 @ amt @ pct))"
    using pair hp space_not_word by auto
  have c2: "ws2 @ amt @ pct = [] \<or> \<not> is_word (hd (ws2 @ amt @ pct))"
    using ws2 hw space_not_word by auto
  have c3: "amt @ pct = [] \<or> \<not> is_space (hd (amt @ pct))"
    using amt space_not_digit by auto
  note t1 = takeWhile_class [OF ws1(2) c1]
  note t2 = takeWhile_class [OF pair(2) c2]
  note t3 = takeWhile_class [OF ws2(2) c3]
  have e1: "alts ?R1 s c =
      (if takeWhile is_space s = [] then [] else alts ?R2 (dropWhile is_space s) c)" for s c
    by (rule alts_Seq_Rep1_skip) (rule f2)
  have e2: "alts ?R2 s c =
      (if takeWhile is_word s = [] then []
       else alts ?R3 (dropWhile is_word s) (c(1 \<mapsto> takeWhile is_word s)))" for s c
    by (rule alts_Seq_Group_Rep1_skip) (rule f3)
  have e3: "alts ?R3 s c =
      (if takeWhile is_space s = [] then [] else alts ?R4 (dropWhile is_space s) c)" for s c
    by (rule alts_Seq_Rep1_skip) (rule f4)
  have "alts (orderRegexp keyword) (keyword @ ws1 @ pair @ ws2 @ amt @ pct) Map.empty =
      alts ?R1 (ws1 @ pair @ ws2 @ amt @ pct) Map.empty"
    by (simp add: orderRegexp_def)
  also have "\<dots> = alts ?R2 (pair @ ws2 @ amt @ pct) Map.empty"
    unfolding e1 t1 using ws1 by simp
  also have "\<dots> = alts ?R3 (ws2 @ amt @ pct) [1 \<mapsto> pair]"
    unfolding e2 t2 using pair by simp
  also have "\<dots> = alts ?R4 (amt @ pct) [1 \<mapsto> pair]"
    unfolding e3 t3 using ws2 by simp
  finally have "alts (orderRegexp keyword) (keyword @ ws1 @ pair @ ws2 @ amt @ pct) Map.empty =
      alts ?R4 (amt @ pct) [1 \<mapsto> pair]" .
  with alts_amount_percent [OF dec pct, of "''amount''" "''percent''" "[1 \<mapsto> pair]"]
  show ?thesis by (simp del: alts.simps)
qed

lemma NumSubexp_orderRegexp: "NumSubexp (orderRegexp keyword) = 3"
  by (simp add: orderRegexp_def)

lemma FindStringSubmatch_full:
  assumes "ws1 \<noteq> []" "list_all is_space ws1" "pair \<noteq> []" "list_all is_word pair"
    "ws2 \<noteq> []" "list_all is_space ws2" "is_decimal amt" "pct = [] \<or> pct = ''%''"
  shows "FindStringSubmatch (orderRegexp keyword) (keyword @ ws1 @ pair @ ws2 @ amt @ pct) =
     [keyword @ ws1 @ pair @ ws2 @ amt @ pct, pair, amt, pct]"
proof -
  from alts_orderRegexp_full [OF assms, of keyword] obtain more where
    "alts (orderRegexp keyword) (keyword @ ws1 @ pair @ ws2 @ amt @ pct) Map.empty =
     ([], if pct = [] then [1 \<mapsto> pair, 2 \<mapsto> amt] else [1 \<mapsto> pair, 2 \<mapsto> amt, 3 \<mapsto> ''%'']) # more"
    by blast
  from FindStringSubmatch_hd [OF this] assms(8) show ?thesis
    by (auto simp: submatches_def NumSubexp_orderRegexp upt_rec)
qed

subsection \<open>The groups of any match of the order grammar\<close>









subsection \<open>What a handler takes from a match\<close>

lemma SubexpNames_orderRegexp:
  "SubexpNames (orderRegexp keyword) = ['''', ''pair'', ''amount'', ''percent'']"
  by (simp add: SubexpNames_def orderRegexp_def upt_rec)

lemma command_map_order:
  "command_map ['''', ''pair'', ''amount'', ''percent''] [w, p, a, pc] =
     [''pair'' \<mapsto> p, ''amount'' \<mapsto> a, ''percent'' \<mapsto> pc]"
  by (simp add: command_map_def upt_rec)

lemma parseCommand_match:
  assumes "FindStringSubmatch (orderRegexp keyword) text = [w, p, a, pc]"
  shows "parseCommand (orderRegexp keyword) text =
     (case ParseFloat a of
        Inl err \<Rightarrow> AmountError err
      | Inr amount \<Rightarrow>
          if amount \<le> 0 then InvalidAmount
          else Intent (ToUpper p) amount (if pc \<noteq> [] then PercentOfPosition else Absolute))"
  by (simp add: parseCommand_def assms SubexpNames_orderRegexp command_map_order index_map_def Let_def split: sum.splits)

lemma parseCommand_no_match:
  "parseCommand re text = NoMatch \<longleftrightarrow> FindStringSubmatch re text = []"
  by (simp add: parseCommand_def Let_def split: sum.splits)

lemma ParseFloat_decimal:
  assumes "is_decimal s"
  shows "ParseFloat s =
     (if overflows (decimal_value s) then Inl (NumError s ''value out of range'')
      else if underflows (decimal_value s) then Inr 0
      else Inr (decimal_value s))"
  using assms by (simp add: ParseFloat_def Let_def)

lemma not_underflows_pos: "\<not> underflows v \<Longrightarrow> 0 < v"
proof -
  assume "\<not> underflows v"
  then have "1 / 2 ^ 1075 < v" by (simp only: underflows_def not_le)
  moreover have "(0::rat) < 1 / 2 ^ 1075" by (simp only: zero_less_divide_1_iff zero_less_power zero_less_numeral)
  ultimately show ?thesis by (rule less_trans [rotated])
qed

lemma parseCommand_tokens:
  assumes "order_tokens ws1 pair ws2 amount percent"
  shows "FindStringSubmatch (orderRegexp keyword) (keyword @ ws1 @ pair @ ws2 @ amount @ percent) =
       [keyword @ ws1 @ pair @ ws2 @ amount @ percent, pair, amount, percent]"
    and "parseCommand (orderRegexp keyword) (keyword @ ws1 @ pair @ ws2 @ amount @ percent) =
       (if overflows (decimal_value amount)
        then AmountError (NumError amount ''value out of range'')
        else if underflows (decimal_value amount) then InvalidAmount
        else Intent (ToUpper pair) (decimal_value amount)
               (if percent = ''%'' then PercentOfPosition else Absolute))"
proof -
  from assms have t: "ws1 \<noteq> []" "list_all is_space ws1" "pair \<noteq> []" "list_all is_word pair"
    "ws2 \<noteq> []" "list_all is_space ws2" "is_decimal amount" "percent = [] \<or> percent = ''%''"
    by (simp_all add: order_tokens_def)
  from FindStringSubmatch_full [OF t]
  show f: "FindStringSubmatch (orderRegexp keyword) (keyword @ ws1 @ pair @ ws2 @ amount @ percent) =
       [keyword @ ws1 @ pair @ ws2 @ amount @ percent, pair, amount, percent]" .
  have p: "percent \<noteq> [] \<longleftrightarrow> percent = ''%''"
    using t(8) by auto
  show "parseCommand (orderRegexp keyword) (keyword @ ws1 @ pair @ ws2 @ amount @ percent) =
       (if overflows (decimal_value amount)
        then AmountError (NumError amount ''value out of range'')
        else if underflows (decimal_value amount) then InvalidAmount
        else Intent (ToUpper pair) (decimal_value amount)
               (if percent = ''%'' then PercentOfPosition else Absolute))"
    unfolding parseCommand_match [OF f] ParseFloat_decimal [OF t(7)] p
    using not_underflows_pos [of "decimal_value amount"] by auto
qed



subsection \<open>Parsing example texts\<close>

lemmas regex_eval =
  buyRegexp_def sellRegexp_def orderRegexp_def submatches_def is_space_def is_word_def is_digit_def

lemmas float_eval =
  ParseFloat_def overflows_def underflows_def is_decimal_def decimal_value_def nat_of_digits_def
  digit_val_def is_digit_def



lemma parse_buy_50_percent:
  "parseCommand buyRegexp ''/buy BTCUSDT 50%'' = Intent ''BTCUSDT'' 50 PercentOfPosition"
proof -
  have "FindStringSubmatch (orderRegexp ''/buy'') ''/buy BTCUSDT 50%'' =
      [''/buy BTCUSDT 50%'', ''BTCUSDT'', ''50'', ''%'']"
    by (simp add: regex_eval)
  from parseCommand_match [OF this] show ?thesis
    by (simp add: buyRegexp_def float_eval ToUpper_def upper_char_def)
qed



lemma parse_buy_no_arguments: "parseCommand buyRegexp ''/buy'' = NoMatch"
  by (simp add: parseCommand_no_match regex_eval)

lemma parse_sell_50_percent:
  "parseCommand sellRegexp ''/sell BTCUSDT 50%'' = Intent ''BTCUSDT'' 50 PercentOfPosition"
proof -
  have "FindStringSubmatch (orderRegexp ''/sell'') ''/sell BTCUSDT 50%'' =
      [''/sell BTCUSDT 50%'', ''BTCUSDT'', ''50'', ''%'']"
    by (simp add: regex_eval)
  from parseCommand_match [OF this] show ?thesis
    by (simp add: sellRegexp_def float_eval ToUpper_def upper_char_def)
qed


lemma parse_sell_0: "parseCommand sellRegexp ''/sell BTCUSDT 0'' = InvalidAmount"
proof -
  have "FindStringSubmatch (orderRegexp ''/sell'') ''/sell BTCUSDT 0'' =
      [''/sell BTCUSDT 0'', ''BTCUSDT'', ''0'', []]"
    by (simp add: regex_eval)
  from parseCommand_match [OF this] show ?thesis
    by (simp add: sellRegexp_def float_eval)
qed


lemma nat_of_digits_snoc: "nat_of_digits (s @ [c]) = 10 * nat_of_digits s + digit_val c"
  by (simp add: nat_of_digits_def)

lemma nat_of_digits_zeros: "nat_of_digits (s @ replicate n (CHR ''0'')) = nat_of_digits s * 10 ^ n"
proof (induction n)
  case 0
  then show ?case by simp
next
  case (Suc n)
  have "s @ replicate (Suc n) (CHR ''0'') = (s @ replicate n (CHR ''0'')) @ [CHR ''0'']"
    by (simp add: replicate_append_same)
  then show ?case
    by (simp only: nat_of_digits_snoc Suc.IH) (simp add: digit_val_def)
qed

lemma hugeAmount_digits: "list_all is_digit hugeAmount"
  by (simp add: hugeAmount_def is_digit_def list_all_iff)

lemma takeWhile_hugeAmount:
  "takeWhile is_digit hugeAmount = hugeAmount" "dropWhile is_digit hugeAmount = []"
  using hugeAmount_digits by (simp_all add: list_all_iff)

lemma is_decimal_hugeAmount: "is_decimal hugeAmount"
  unfolding is_decimal_def Let_def takeWhile_hugeAmount by (simp add: hugeAmount_def)

lemma decimal_value_hugeAmount: "decimal_value hugeAmount = 10 ^ 309"
proof -
  have "nat_of_digits hugeAmount = 10 ^ 309"
    unfolding hugeAmount_def nat_of_digits_zeros by (simp add: nat_of_digits_def digit_val_def)
  then show ?thesis
    unfolding decimal_value_def Let_def takeWhile_hugeAmount by (simp add: nat_of_digits_def)
qed

lemma overflows_hugeAmount: "overflows (decimal_value hugeAmount)"
  unfolding decimal_value_hugeAmount overflows_def by simp

lemma order_tokens_hugeAmount: "order_tokens '' '' ''BTCUSDT'' '' '' hugeAmount []"
  by (simp add: order_tokens_def is_decimal_hugeAmount is_space_def is_word_def)

lemma parse_buy_huge:
  "parseCommand buyRegexp (''/buy BTCUSDT '' @ hugeAmount) =
     AmountError (NumError hugeAmount ''value out of range'')"
  using parseCommand_tokens(2) [OF order_tokens_hugeAmount, of "''/buy''"]
  by (simp add: buyRegexp_def overflows_hugeAmount)

lemma parse_hugeOrder:
  "parseCommand buyRegexp hugeOrder = AmountError (NumError hugeAmount ''value out of range'')"
  unfolding hugeOrder_def by (rule parse_buy_huge)

subsection \<open>The order handlers by the outcome of parsing\<close>

lemma BuyHandle_parse:
  "BuyHandle e c st =
     (case parseCommand buyRegexp (Text c) of
        NoMatch \<Rightarrow> logged (client_Send e (Sender c) buyUsage False st)
      | AmountError err \<Rightarrow> (Some err, OnError e err (logError st))
      | InvalidAmount \<Rightarrow> logged (client_Send e (Sender c) ''Invalid amount'' False st)
      | Intent pair amount mode \<Rightarrow>
          (case mode of
             Absolute \<Rightarrow>
               (case Controller_CreateOrderMarketQuote e SideTypeBuy pair amount st of
                  (Some err, st') \<Rightarrow> (Some err, st')
                | (None, st') \<Rightarrow> (None, logInfo st'))
           | PercentOfPosition \<Rightarrow>
               (case Controller_Position e pair st of
                  (Inl err, st') \<Rightarrow> (Some err, OnError e err (logError st'))
                | (Inr (asset, quote), st') \<Rightarrow>
                    (case Controller_CreateOrderMarketQuote e SideTypeBuy pair
                            (amount * quote / 100) st' of
                       (Some err, st'') \<Rightarrow> (Some err, st'')
                     | (None, st'') \<Rightarrow> (None, logInfo st'')))))"
  by (simp add: BuyHandle_def parseCommand_def Let_def split: sum.splits prod.splits)

lemma SellHandle_parse:
  "SellHandle e c st =
     (case parseCommand sellRegexp (Text c) of
        NoMatch \<Rightarrow> logged (client_Send e (Sender c) sellUsage False st)
      | AmountError err \<Rightarrow> (Some err, OnError e err (logError st))
      | InvalidAmount \<Rightarrow> logged (client_Send e (Sender c) ''Invalid amount'' False st)
      | Intent pair amount mode \<Rightarrow>
          (case mode of
             Absolute \<Rightarrow>
               (case Controller_CreateOrderMarketQuote e SideTypeSell pair amount st of
                  (Some err, st') \<Rightarrow> (Some err, st')
                | (None, st') \<Rightarrow> (None, logInfo st'))
           | PercentOfPosition \<Rightarrow>
               (case Controller_Position e pair st of
                  (Inl err, st') \<Rightarrow> (Some err, st')
                | (Inr (asset, quote), st') \<Rightarrow>
                    (case Controller_CreateOrderMarket e SideTypeSell pair
                            (amount * asset / 100) st' of
                       (Some err, st'') \<Rightarrow> (Some err, st'')
                     | (None, st'') \<Rightarrow> (None, logInfo st'')))))"
  by (simp add: SellHandle_def parseCommand_def Let_def split: sum.splits prod.splits)



lemmas run_eval =
  OnError_eq Notify_def client_Send_def logged_def logError_def logInfo_def emit_def
  events_since_def Controller_Position_def Controller_CreateOrderMarketQuote_def
  Controller_CreateOrderMarket_def exampleEnv_def exampleState_def

subsection \<open>Parsing the order grammar\<close>








subsection \<open>Order sizing and failures\<close>



text \<open>
  Claim C2, as amended. When the text of a buy or sell command has no match, the handler sends
  the usage text to the requesting sender, and when the amount is not positive it sends
  "Invalid amount" to the requesting sender; in both cases this one send, and a log entry if
  it fails, is all that happens, so \<^verbatim>\<open>OnError\<close> is not called and nobody else is written to.
  When \<^verbatim>\<open>ParseFloat\<close> fails on the amount, the handler logs the error, hands it to
  \<^verbatim>\<open>OnError\<close>, which broadcasts it to every operator, and returns it; there is no reply
  of its own to the sender.
\<close>

theorem parse_failure_replies:
  assumes "h = BuyHandle \<and> re = buyRegexp \<and> usage = buyUsage \<or>
           h = SellHandle \<and> re = sellRegexp \<and> usage = sellUsage"
  shows "(parseCommand re (Text c) = NoMatch \<longrightarrow>
            events_since st (snd (h e c st)) =
              [EvSend (ID (Sender c)) usage False] @
              (if fst (h e c st) = None then [] else [EvLogError]) \<and>
            fst (h e c st) = sendErr e (trace st @ [EvSend (ID (Sender c)) usage False])) \<and>
         (parseCommand re (Text c) = InvalidAmount \<longrightarrow>
            events_since st (snd (h e c st)) =
              [EvSend (ID (Sender c)) ''Invalid amount'' False] @
              (if fst (h e c st) = None then [] else [EvLogError]) \<and>
            fst (h e c st) =
              sendErr e (trace st @ [EvSend (ID (Sender c)) ''Invalid amount'' False])) \<and>
         (parseCommand re (Text c) = AmountError err \<longrightarrow>
            fst (h e c st) = Some err \<and>
            (\<exists>evs. events_since st (snd (h e c st)) = EvLogError # evs \<and>
               [ev \<leftarrow> evs. ev \<noteq> EvLogError] =
                 map (\<lambda>user. EvSend (ucast user) (errorMessage e err) False) (Users e)))"
  using assms
proof
  assume "h = BuyHandle \<and> re = buyRegexp \<and> usage = buyUsage"
  then show ?thesis
    using OnError_logged_events [of st e err]
    by (simp add: BuyHandle_parse reply_events reply_result split del: if_split)
next
  assume "h = SellHandle \<and> re = sellRegexp \<and> usage = sellUsage"
  then show ?thesis
    using OnError_logged_events [of st e err]
    by (simp add: SellHandle_parse reply_events reply_result split del: if_split)
qed

theorem parse_failure_replies_witness:
  "events_since exampleState
     (snd (BuyHandle exampleEnv \<lparr>Sender = \<lparr>ID = 1\<rparr>, Text = ''/buy''\<rparr> exampleState)) =
     [EvSend 1 buyUsage False] \<and>
   events_since exampleState
     (snd (SellHandle exampleEnv \<lparr>Sender = \<lparr>ID = 1\<rparr>, Text = ''/sell BTCUSDT 0''\<rparr> exampleState)) =
     [EvSend 1 ''Invalid amount'' False] \<and>
   fst (BuyHandle exampleEnv \<lparr>Sender = \<lparr>ID = 1\<rparr>, Text = hugeOrder\<rparr> exampleState) =
     Some (NumError hugeAmount ''value out of range'')"
  using
    parse_failure_replies [where h = BuyHandle and re = buyRegexp and usage = buyUsage
      and c = "\<lparr>Sender = \<lparr>ID = 1\<rparr>, Text = ''/buy''\<rparr>" and e = exampleEnv and st = exampleState]
    parse_failure_replies [where h = SellHandle and re = sellRegexp and usage = sellUsage
      and c = "\<lparr>Sender = \<lparr>ID = 1\<rparr>, Text = ''/sell BTCUSDT 0''\<rparr>" and e = exampleEnv
      and st = exampleState]
    parse_failure_replies [where h = BuyHandle and re = buyRegexp and usage = buyUsage
      and c = "\<lparr>Sender = \<lparr>ID = 1\<rparr>, Text = hugeOrder\<rparr>" and e = exampleEnv
      and st = exampleState and err = "NumError hugeAmount ''value out of range''"]
  by (simp add: parse_buy_no_arguments parse_sell_0 parse_hugeOrder exampleEnv_def exampleState_def)

text \<open>A parse failure that is not answered to the sender: on an amount out of range the handler
  logs, broadcasts the error to every operator through \<^verbatim>\<open>OnError\<close> and returns it.\<close>

theorem amount_error_broadcast_counterexample:
  "parseCommand buyRegexp hugeOrder =
     AmountError (NumError hugeAmount ''value out of range'') \<and>
   events_since exampleState
     (snd (BuyHandle exampleEnv \<lparr>Sender = \<lparr>ID = 1\<rparr>, Text = hugeOrder\<rparr>
        exampleState)) =
     [EvLogError,
      EvSend 1 (errorMessage exampleEnv (NumError hugeAmount ''value out of range'')) False,
      EvSend 2 (errorMessage exampleEnv (NumError hugeAmount ''value out of range'')) False]"
  by (simp add: parse_hugeOrder BuyHandle_parse run_eval)

text \<open>
  Claim C3 at the failing input. With a position lookup that fails, \<^verbatim>\<open>/sell BTCUSDT 50%\<close> makes
  \<^verbatim>\<open>SellHandle\<close> return the error after the lookup and nothing more: \<^verbatim>\<open>OnError\<close> is not called
  and no operator is notified. On \<^verbatim>\<open>/buy BTCUSDT 50%\<close> in the same environment \<^verbatim>\<open>BuyHandle\<close>
  logs the error and broadcasts it to both operators.
\<close>

theorem sell_position_failure_not_broadcast:
  "SellHandle (exampleEnv\<lparr>positionRes := \<lambda>tr. Inl exampleError\<rparr>)
     \<lparr>Sender = \<lparr>ID = 1\<rparr>, Text = ''/sell BTCUSDT 50%''\<rparr> exampleState =
     (Some exampleError, exampleState\<lparr>trace := [EvPosition ''BTCUSDT'']\<rparr>) \<and>
   BuyHandle (exampleEnv\<lparr>positionRes := \<lambda>tr. Inl exampleError\<rparr>)
     \<lparr>Sender = \<lparr>ID = 1\<rparr>, Text = ''/buy BTCUSDT 50%''\<rparr> exampleState =
     (Some exampleError,
      exampleState\<lparr>trace :=
        [EvPosition ''BTCUSDT'', EvLogError,
         EvSend 1 (errorMessage exampleEnv exampleError) False,
         EvSend 2 (errorMessage exampleEnv exampleError) False]\<rparr>)"
  by (simp add: SellHandle_parse BuyHandle_parse parse_sell_50_percent parse_buy_50_percent run_eval
      errorMessage_def exampleError_def)

end
